theory Spec2Isabelle
  imports Complex_Main
begin

section \<open>JavaScript values\<close>

text \<open>
  The schedule file is read with \<open>JSON.parse\<close>, so every value the program inspects is a
  JSON value. An object is the list of its properties. A number is its numeric value (only
  whether it is zero matters to this program). Reading a property gives a value or
  \<open>undefined\<close>: \<open>None\<close> of type \<open>json option\<close> stands for \<open>undefined\<close>.
\<close>

datatype json =
    JNull
  | JBool bool
  | JNum rat
  | JStr string
  | JArr "json list"
  | JObj "(string \<times> json) list"

datatype exn = SyntaxError | TypeError | RangeError | Error string

text \<open>JavaScript truthiness, as used by \<open>!x\<close>, \<open>x && y\<close> and \<open>x || y\<close>.\<close>

fun truthy :: "json option \<Rightarrow> bool" where
  "truthy None = False"
| "truthy (Some JNull) = False"
| "truthy (Some (JBool b)) = b"
| "truthy (Some (JNum n)) = (n \<noteq> 0)"
| "truthy (Some (JStr s)) = (s \<noteq> [])"
| "truthy (Some (JArr xs)) = True"
| "truthy (Some (JObj kvs)) = True"

text \<open>
  \<open>get v k\<close> is the property read \<open>v.k\<close> (or \<open>v[k]\<close>) on a value that is neither
  \<open>null\<close> nor \<open>undefined\<close>, for the property names this program reads: \<open>schedule\<close>, the
  seven weekday names, \<open>type\<close>, \<open>startTime\<close>, \<open>endTime\<close>, \<open>className\<close>, \<open>description\<close>
  and \<open>classLocation\<close>. None of them is a built-in property of strings, numbers, booleans
  or arrays, so only an object can answer with something other than \<open>undefined\<close>.
\<close>

fun get :: "json \<Rightarrow> string \<Rightarrow> json option" where
  "get (JObj kvs) k = map_of kvs k"
| "get v k = None"

text \<open>A property read on an arbitrary value: on \<open>null\<close> and \<open>undefined\<close> it throws.\<close>

definition member :: "json option \<Rightarrow> string \<Rightarrow> exn + json option" where
  "member v k =
     (case v of
        None \<Rightarrow> Inl TypeError
      | Some JNull \<Rightarrow> Inl TypeError
      | Some j \<Rightarrow> Inr (get j k))"

section \<open>Strings and numbers\<close>

text \<open>\<open>s.split(':')\<close>: the pieces of \<open>s\<close> between colons; never empty.\<close>

fun split_colon :: "string \<Rightarrow> string list" where
  "split_colon [] = [[]]"
| "split_colon (c # cs) =
     (if c = CHR '':'' then [] # split_colon cs
      else (case split_colon cs of
              [] \<Rightarrow> [[c]]
            | p # ps \<Rightarrow> (c # p) # ps))"

text \<open>\<open>a[i]\<close> on an array of strings: \<open>undefined\<close> out of range.\<close>

definition at_index :: "string list \<Rightarrow> nat \<Rightarrow> string option" where
  "at_index a i = (if i < length a then Some (a ! i) else None)"

definition is_digit :: "char \<Rightarrow> bool" where
  "is_digit c = (c \<in> set ''0123456789'')"

definition is_space :: "char \<Rightarrow> bool" where
  "is_space c = ((of_char c :: nat) \<in> {9, 10, 11, 12, 13, 32})"

definition digit_val :: "char \<Rightarrow> int" where
  "digit_val c = of_char c - 48"

definition decimal :: "string \<Rightarrow> int" where
  "decimal ds = foldl (\<lambda>a c. 10 * a + digit_val c) 0 ds"

text \<open>
  \<open>parseInt(x, 10)\<close>. The argument is a string or \<open>undefined\<close>; \<open>undefined\<close> becomes the
  text "undefined", which has no digits. Leading white space is skipped, one sign is read,
  then the longest run of decimal digits; with no digit the result is \<open>NaN\<close>, here \<open>None\<close>.
  Strings are byte strings here, and the white space skipped is the ASCII white space.
  The result is the exact integer; it is rounded to a double where it is used, in
  \<open>setHours\<close>. (For more than 20 significant digits the language lets an implementation
  round the digits after the 20th to zero first; the exact value is rounded here.)
\<close>

definition parseInt :: "string option \<Rightarrow> int option" where
  "parseInt x =
     (case x of
        None \<Rightarrow> None
      | Some s \<Rightarrow>
          (let t = dropWhile is_space s;
               sgn_rest = (case t of
                             [] \<Rightarrow> (1, [])
                           | c # r \<Rightarrow> if c = CHR ''-'' then (- 1, r)
                                      else if c = CHR ''+'' then (1, r) else (1, t));
               ds = takeWhile is_digit (snd sgn_rest)
           in if ds = [] then None else Some (fst sgn_rest * decimal ds)))"

text \<open>\<open>s.toLowerCase()\<close> and \<open>s.toUpperCase()\<close> on the ASCII letters this program meets.\<close>

definition lower_char :: "char \<Rightarrow> char" where
  "lower_char c =
     (case map_of (zip ''ABCDEFGHIJKLMNOPQRSTUVWXYZ'' ''abcdefghijklmnopqrstuvwxyz'') c of
        Some l \<Rightarrow> l
      | None \<Rightarrow> c)"

definition upper_char :: "char \<Rightarrow> char" where
  "upper_char c =
     (case map_of (zip ''abcdefghijklmnopqrstuvwxyz'' ''ABCDEFGHIJKLMNOPQRSTUVWXYZ'') c of
        Some u \<Rightarrow> u
      | None \<Rightarrow> c)"

definition toLowerCase :: "string \<Rightarrow> string" where
  "toLowerCase s = map lower_char s"

text \<open>\<open>s.charAt(0).toUpperCase() + s.slice(1)\<close>\<close>

definition capitalize :: "string \<Rightarrow> string" where
  "capitalize s = (case s of [] \<Rightarrow> [] | c # cs \<Rightarrow> upper_char c # cs)"

section \<open>Dates\<close>

text \<open>
  A JavaScript \<open>Date\<close> holds a time value in milliseconds, or is an Invalid Date (\<open>None\<close>).
  The dates the program reads (the two boundary dates and the days between them) are kept
  here as the local time they show: day \<open>n\<close> starts at \<open>n * msPerDay\<close>, and day \<open>0\<close> is
  Thursday 1 January 1970. The start and the end of an event are kept as time values, in
  UTC, as \<open>getTime()\<close> gives them; the browser's time zone takes local time to UTC, and it is
  part of the \<open>host\<close> below.
\<close>

type_synonym date = "int option"

definition msPerDay :: int where
  "msPerDay = 86400000"

definition msPerHour :: int where
  "msPerHour = 3600000"

definition msPerMinute :: int where
  "msPerMinute = 60000"

definition Day :: "int \<Rightarrow> int" where
  "Day t = t div msPerDay"

definition TimeClip :: "int \<Rightarrow> date" where
  "TimeClip t = (if \<bar>t\<bar> > 8640000000000000 then None else Some t)"

text \<open>
  What the program finds where it runs. \<open>utc t\<close> is \<open>UTC(t)\<close> of the language
  specification for the browser's time zone: the time value at which the local clock shows
  \<open>t\<close>. A local time that the clock skips (in New York, 02:30 on 10 March 2024) is read with
  the offset in force before the jump, which makes it the instant at which the clock shows
  03:30. \<open>location_ok\<close> is the test the installed ical-generator applies to a location that
  is an object; it differs between releases of the library.
\<close>

record host =
  utc :: "int \<Rightarrow> int"
  location_ok :: "json \<Rightarrow> bool"

text \<open>
  JavaScript numbers are doubles. The numbers met here are whole, so a number is an
  integer, rounded to the nearest double (ties to even) after every operation, or it is
  not finite (\<open>NaN\<close> or an infinity), which is \<open>None\<close>. \<open>bit_length n\<close> is the number of
  binary digits of \<open>n\<close>; a double keeps 53 of them.
\<close>

function bit_length :: "int \<Rightarrow> nat" where
  "bit_length a = (if a \<le> 0 then 0 else Suc (bit_length (a div 2)))"
  by pat_completeness auto
termination
  by (relation "measure nat") auto

declare bit_length.simps [simp del]

definition round_double :: "int \<Rightarrow> int" where
  "round_double n =
     (let a = \<bar>n\<bar>;
          e = bit_length a - 53;
          q = a div 2 ^ e;
          r = a mod 2 ^ e
      in if e = 0 then n
         else sgn n * ((if 2 * r > 2 ^ e \<or> (2 * r = 2 ^ e \<and> odd q) then q + 1 else q) * 2 ^ e))"

definition to_double :: "int \<Rightarrow> int option" where
  "to_double n = (let r = round_double n in if \<bar>r\<bar> \<ge> 2 ^ 1024 then None else Some r)"

text \<open>\<open>a * k\<close> and \<open>a + b\<close> on such numbers; a value that is not finite stays so.\<close>

definition dmul :: "int option \<Rightarrow> int \<Rightarrow> int option" where
  "dmul a k = (case a of None \<Rightarrow> None | Some x \<Rightarrow> to_double (x * k))"

definition dadd :: "int option \<Rightarrow> int option \<Rightarrow> int option" where
  "dadd a b =
     (case a of
        None \<Rightarrow> None
      | Some x \<Rightarrow> (case b of None \<Rightarrow> None | Some y \<Rightarrow> to_double (x + y)))"

text \<open>
  \<open>MakeTime(hour, min, sec, ms)\<close> and \<open>MakeDate(day, time)\<close> of the language
  specification: \<open>((hour * msPerHour + min * msPerMinute) + sec * 1000) + ms\<close> and
  \<open>day * msPerDay + time\<close>, in double arithmetic.
\<close>

definition MakeTime :: "int option \<Rightarrow> int option \<Rightarrow> int \<Rightarrow> int \<Rightarrow> int option" where
  "MakeTime hour minute sec ms =
     dadd (dadd (dadd (dmul hour msPerHour) (dmul minute msPerMinute)) (Some (sec * 1000)))
          (Some ms)"

definition MakeDate :: "int \<Rightarrow> int option \<Rightarrow> int option" where
  "MakeDate day time = dadd (to_double (day * msPerDay)) time"

text \<open>
  \<open>d.setHours(h, m)\<close> on a valid date that shows the local time \<open>t\<close>; the result is the
  new time value of the date. The arguments are the results of \<open>parseInt\<close>, which become
  doubles here. The new local time is the day of \<open>t\<close> with hour \<open>h\<close> and minute \<open>m\<close>, seconds
  and milliseconds kept; hours and minutes are not reduced, they roll over into the
  following hours and days. The time value is \<open>TimeClip(UTC(...))\<close> of that local time: an
  argument that is not finite, or a time value outside the range, gives an Invalid Date.
\<close>

definition setHours :: "host \<Rightarrow> int \<Rightarrow> int option \<Rightarrow> int option \<Rightarrow> date" where
  "setHours host t h m =
     (case MakeDate (Day t)
             (MakeTime (Option.bind h to_double) (Option.bind m to_double)
                ((t mod msPerMinute) div 1000) (t mod 1000)) of
        None \<Rightarrow> None
      | Some tv \<Rightarrow> TimeClip (utc host tv))"

text \<open>\<open>format(day, 'EEEE')\<close> of date-fns: the English weekday name of a valid date.\<close>

definition format_EEEE :: "int \<Rightarrow> string" where
  "format_EEEE t =
     [''Sunday'', ''Monday'', ''Tuesday'', ''Wednesday'', ''Thursday'', ''Friday'', ''Saturday'']
       ! nat ((Day t + 4) mod 7)"

text \<open>
  \<open>eachDayOfInterval({start, end})\<close> of date-fns. Its loop starts at the start of the
  first day and pushes one date per day while the date is not after the end. Each date is
  kept as the start of its day; the program reads only its day and its weekday.
\<close>

function eachDay_loop :: "int \<Rightarrow> int \<Rightarrow> int list" where
  "eachDay_loop currentDate endTime =
     (if currentDate \<le> endTime
      then currentDate # eachDay_loop (currentDate + msPerDay) endTime
      else [])"
  by pat_completeness auto
termination
  by (relation "measure (\<lambda>(c, e). nat (e - c + 1))") (auto simp: msPerDay_def)

declare eachDay_loop.simps [simp del]

text \<open>
  The two behaviours the library has had for the same call. Release 2 refuses an interval
  whose start is after its end, or with an Invalid Date, by throwing \<open>RangeError\<close>.
  Releases 3 and 4 do not throw: they walk a reversed interval from its later day down to
  its earlier day, and give no day when a date is invalid. The repository's source does not
  fix the release, so the release is a parameter.
\<close>

datatype date_fns = V2 | V3

fun eachDayOfInterval :: "date_fns \<Rightarrow> date \<Rightarrow> date \<Rightarrow> exn + int list" where
  "eachDayOfInterval V2 (Some s) (Some e) =
     (if s \<le> e then Inr (eachDay_loop (Day s * msPerDay) e) else Inl RangeError)"
| "eachDayOfInterval V2 s e = Inl RangeError"
| "eachDayOfInterval V3 (Some s) (Some e) =
     (if s > e then Inr (rev (eachDay_loop (Day e * msPerDay) s))
      else Inr (eachDay_loop (Day s * msPerDay) e))"
| "eachDayOfInterval V3 s e = Inr []"

section \<open>Calendar events\<close>

text \<open>
  The object handed to \<open>cal.createEvent\<close>, and the event the calendar stores for it. A
  field the object literal does not mention is \<open>None\<close>. \<open>summary\<close>, \<open>description\<close> and \<open>location\<close> carry whatever value the item had,
  since \<open>x || y\<close> returns \<open>x\<close> itself when it is truthy.
\<close>

record event =
  ev_start :: date
  ev_end :: date
  summary :: json
  description :: json
  location :: "json option"
  busyStatus :: string
  status :: "string option"
  transparency :: "string option"

text \<open>
  The library's test of the \<open>location\<close> it is given. A missing or falsy location and a
  string pass; an object passes when the release at hand accepts it; a number, \<open>true\<close> and
  an array are refused.
\<close>

definition location_accepted :: "host \<Rightarrow> json option \<Rightarrow> bool" where
  "location_accepted host l =
     (case l of
        None \<Rightarrow> True
      | Some (JStr s) \<Rightarrow> True
      | Some (JObj kvs) \<Rightarrow> location_ok host (JObj kvs)
      | Some v \<Rightarrow> \<not> truthy (Some v))"

text \<open>
  \<open>cal.createEvent(e)\<close> of ical-generator. It sets the start, the end and the location in
  this order and throws when the start or the end is an Invalid Date or the location is
  refused (an \<open>Error\<close> or a \<open>TypeError\<close>, by release; the program does not look at which).
  When the start is after the end it stores the two exchanged. The event is then
  appended to the calendar, which is the list of the events stored so far, in order of
  creation: each is the object handed over, with its start and end as the library keeps
  them. How the library writes the stored events belongs to \<open>toString\<close>, a parameter below.
\<close>

definition createEvent :: "host \<Rightarrow> event \<Rightarrow> event list \<Rightarrow> exn + event list" where
  "createEvent host e cal =
     (case ev_start e of
        None \<Rightarrow> Inl (Error ''`start` has to be a valid date!'')
      | Some s \<Rightarrow>
          (case ev_end e of
             None \<Rightarrow> Inl (Error ''`end` has to be a valid date!'')
           | Some t \<Rightarrow>
               if \<not> location_accepted host (location e)
               then Inl (Error ''`location` isn't formatted correctly.'')
               else if s > t
               then Inr (cal @ [e\<lparr>ev_start := Some t, ev_end := Some s\<rparr>])
               else Inr (cal @ [e])))"

text \<open>\<open>x || y\<close>: \<open>x\<close> itself when it is truthy, otherwise \<open>y\<close>.\<close>

definition or_else :: "json option \<Rightarrow> json \<Rightarrow> json" where
  "or_else x y = (case x of None \<Rightarrow> y | Some v \<Rightarrow> if truthy x then v else y)"

text \<open>
  Lines 67-71: \<open>new Date(day)\<close>, then \<open>setHours\<close> with the two \<open>parseInt\<close> results. The
  value \<open>v\<close> is truthy here; \<open>v.split\<close> is a function only when \<open>v\<close> is a string, and
  calling it on anything else throws \<open>TypeError\<close>.
\<close>

definition event_time :: "host \<Rightarrow> int \<Rightarrow> json option \<Rightarrow> exn + date" where
  "event_time host day v =
     (case v of
        Some (JStr s) \<Rightarrow>
          Inr (setHours host day (parseInt (at_index (split_colon s) 0))
                                 (parseInt (at_index (split_colon s) 1)))
      | _ \<Rightarrow> Inl TypeError)"

text \<open>Lines 66-93: the body of \<open>daySchedule.forEach\<close> for one item.\<close>

definition process_item :: "host \<Rightarrow> int \<Rightarrow> json \<Rightarrow> event list \<Rightarrow> exn + event list" where
  "process_item host day item cal =
     (if truthy (Some item) \<and> truthy (get item ''type'') \<and> truthy (get item ''startTime'')
         \<and> truthy (get item ''endTime'')
      then
        (case event_time host day (get item ''startTime'') of
           Inl x \<Rightarrow> Inl x
         | Inr eventStart \<Rightarrow>
             (case event_time host day (get item ''endTime'') of
                Inl x \<Rightarrow> Inl x
              | Inr eventEnd \<Rightarrow>
                  if get item ''type'' = Some (JStr ''teaching'')
                     \<or> get item ''type'' = Some (JStr ''student'')
                  then
                    createEvent host
                      \<lparr> ev_start = eventStart,
                        ev_end = eventEnd,
                        summary =
                          or_else (get item ''className'')
                            (case get item ''type'' of
                               Some (JStr ty) \<Rightarrow> JStr (capitalize ty @ '' Hours'')
                             | _ \<Rightarrow> JStr []),
                        description = or_else (get item ''description'') (JStr []),
                        location = Some (or_else (get item ''classLocation'') (JStr [])),
                        busyStatus = ''BUSY'',
                        status = None,
                        transparency = None \<rparr> cal
                  else if get item ''type'' = Some (JStr ''campus'')
                  then
                    createEvent host
                      \<lparr> ev_start = eventStart,
                        ev_end = eventEnd,
                        summary = JStr ''On Campus (Available for Meetings)'',
                        description = JStr
                          ''Instructor is on campus and available for meetings during this time.'',
                        location = None,
                        busyStatus = ''FREE'',
                        status = Some ''CONFIRMED'',
                        transparency = Some ''TRANSPARENT'' \<rparr> cal
                  else Inr cal))
      else Inr cal)"

fun forEach_item :: "host \<Rightarrow> int \<Rightarrow> json list \<Rightarrow> event list \<Rightarrow> exn + event list" where
  "forEach_item host day [] cal = Inr cal"
| "forEach_item host day (item # items) cal =
     (case process_item host day item cal of
        Inl x \<Rightarrow> Inl x
      | Inr cal' \<Rightarrow> forEach_item host day items cal')"

text \<open>
  Lines 61-95: the body of the loop over the days. \<open>sd\<close> is \<open>scheduleData\<close>, a truthy
  value; \<open>scheduleData.schedule[dayOfWeek]\<close> throws when \<open>scheduleData.schedule\<close> is
  \<open>undefined\<close> or \<open>null\<close>.
\<close>

definition process_day :: "host \<Rightarrow> json \<Rightarrow> int \<Rightarrow> event list \<Rightarrow> exn + event list" where
  "process_day host sd day cal =
     (case member (get sd ''schedule'') (toLowerCase (format_EEEE day)) of
        Inl x \<Rightarrow> Inl x
      | Inr daySchedule \<Rightarrow>
          (case daySchedule of
             Some (JArr items) \<Rightarrow> forEach_item host day items cal
           | _ \<Rightarrow> Inr cal))"

fun forEach_day :: "host \<Rightarrow> json \<Rightarrow> int list \<Rightarrow> event list \<Rightarrow> exn + event list" where
  "forEach_day host sd [] cal = Inr cal"
| "forEach_day host sd (day # days) cal =
     (case process_day host sd day cal of
        Inl x \<Rightarrow> Inl x
      | Inr cal' \<Rightarrow> forEach_day host sd days cal')"

text \<open>
  Lines 56-96: the calendar built from the schedule and the two parsed dates. An exception
  leaves the \<open>try\<close> block, and the calendar built so far is dropped with it.
\<close>

definition expand :: "host \<Rightarrow> date_fns \<Rightarrow> json \<Rightarrow> date \<Rightarrow> date \<Rightarrow> exn + event list" where
  "expand host ver sd start end_date =
     (case eachDayOfInterval ver start end_date of
        Inl x \<Rightarrow> Inl x
      | Inr days \<Rightarrow> forEach_day host sd days [])"

section \<open>The component's state and its two handlers\<close>

text \<open>
  The \<open>useState\<close> cells of \<open>ScheduleProcessor\<close>. \<open>file_name\<close> is the name of the selected
  file (the cell \<open>file\<close>); \<open>scheduleData\<close> is \<open>null\<close> (\<open>None\<close>) or the parsed document.
\<close>

record state =
  file_name :: "string option"
  startDate :: string
  endDate :: string
  scheduleData :: "json option"
  error :: string

text \<open>
  Lines 28-34, the \<open>try\<close> block of \<open>reader.onload\<close>. Its input is what \<open>JSON.parse\<close> made
  of the file's text: a thrown \<open>SyntaxError\<close> or the parsed value.
\<close>

definition load_try :: "exn + json \<Rightarrow> exn + json" where
  "load_try parsed =
     (case parsed of
        Inl x \<Rightarrow> Inl x
      | Inr parsedData \<Rightarrow>
          (case member (Some parsedData) ''schedule'' of
             Inl x \<Rightarrow> Inl x
           | Inr v \<Rightarrow>
               if \<not> truthy v then Inl (Error ''Invalid file format: missing schedule data'')
               else Inr parsedData))"

definition reader_onload :: "exn + json \<Rightarrow> state \<Rightarrow> state" where
  "reader_onload parsed st =
     (case load_try parsed of
        Inr parsedData \<Rightarrow> st\<lparr>scheduleData := Some parsedData, error := []\<rparr>
      | Inl x \<Rightarrow>
          st\<lparr>error := ''Error parsing the file. Please make sure it's a valid .cccsched file.'',
             scheduleData := None\<rparr>)"

definition endsWith :: "string \<Rightarrow> string \<Rightarrow> bool" where
  "endsWith s suf = (length suf \<le> length s \<and> drop (length s - length suf) s = suf)"

text \<open>
  Lines 22-47. The selected file is its name together with the result of \<open>JSON.parse\<close> on
  its text, or absent; the read is taken to have completed.
\<close>

definition handleFileChange :: "(string \<times> (exn + json)) option \<Rightarrow> state \<Rightarrow> state" where
  "handleFileChange selectedFile st =
     (case selectedFile of
        None \<Rightarrow>
          st\<lparr>error := ''Please select a valid .cccsched file.'', file_name := None,
             scheduleData := None\<rparr>
      | Some (name, parsed) \<Rightarrow>
          if endsWith name ''.cccsched''
          then reader_onload parsed (st\<lparr>file_name := Some name\<rparr>)
          else st\<lparr>error := ''Please select a valid .cccsched file.'', file_name := None,
                  scheduleData := None\<rparr>)"

text \<open>
  Lines 49-106. Besides the host, two library functions are parameters: \<open>parseISO\<close> of date-fns, from a
  string to a date that may be invalid, and \<open>toString\<close> of the calendar, which encodes the
  events and may throw. The second component of the result is what \<open>saveAs\<close> received: the
  encoded text and the file name, or nothing. \<open>Blob\<close> and \<open>saveAs\<close> themselves are taken
  not to throw.
\<close>

definition try_block ::
  "host \<Rightarrow> (string \<Rightarrow> date) \<Rightarrow> date_fns \<Rightarrow> (event list \<Rightarrow> exn + 'doc) \<Rightarrow> json \<Rightarrow> state
     \<Rightarrow> exn + 'doc" where
  "try_block host parseISO ver toString sd st =
     (case expand host ver sd (parseISO (startDate st)) (parseISO (endDate st)) of
        Inl x \<Rightarrow> Inl x
      | Inr cal \<Rightarrow> toString cal)"

definition generateICalFile ::
  "host \<Rightarrow> (string \<Rightarrow> date) \<Rightarrow> date_fns \<Rightarrow> (event list \<Rightarrow> exn + 'doc) \<Rightarrow> state
     \<Rightarrow> state \<times> ('doc \<times> string) option" where
  "generateICalFile host parseISO ver toString st =
     (case scheduleData st of
        None \<Rightarrow> (st\<lparr>error := ''Please upload a file and set start and end dates.''\<rparr>, None)
      | Some sd \<Rightarrow>
          if \<not> truthy (Some sd) \<or> startDate st = [] \<or> endDate st = []
          then (st\<lparr>error := ''Please upload a file and set start and end dates.''\<rparr>, None)
          else
            (case try_block host parseISO ver toString sd st of
               Inl x \<Rightarrow>
                 (st\<lparr>error :=
                       ''Error generating iCal file. Please check your schedule data and try again.''\<rparr>,
                  None)
             | Inr doc \<Rightarrow> (st\<lparr>error := []\<rparr>, Some (doc, ''faculty_schedule.ics''))))"

section \<open>Calendar dates for the date fields\<close>

text \<open>
  What \<open>parseISO\<close> gives on the text of a date field, which is empty or of the form
  \<open>YYYY-MM-DD\<close>: the start of that local day when the month and the day exist, and an
  Invalid Date otherwise. The function is exact on texts of that form and on texts without
  a digit, and it is applied to no other text below; the library also reads other ISO 8601
  forms, which this function does not cover. The general statements take \<open>parseISO\<close> as
  a parameter and hold for every function in its place.
\<close>

definition is_leap :: "int \<Rightarrow> bool" where
  "is_leap y = (y mod 4 = 0 \<and> (y mod 100 \<noteq> 0 \<or> y mod 400 = 0))"

definition days_in_month :: "int \<Rightarrow> int \<Rightarrow> int" where
  "days_in_month y m =
     (if m = 2 then (if is_leap y then 29 else 28)
      else if m = 4 \<or> m = 6 \<or> m = 9 \<or> m = 11 then 30 else 31)"

definition days_from_civil :: "int \<Rightarrow> int \<Rightarrow> int \<Rightarrow> int" where
  "days_from_civil y m d =
     (let y' = (if m \<le> 2 then y - 1 else y);
          era = y' div 400;
          yoe = y' - era * 400;
          doy = (153 * (if m > 2 then m - 3 else m + 9) + 2) div 5 + d - 1;
          doe = yoe * 365 + yoe div 4 - yoe div 100 + doy
      in era * 146097 + doe - 719468)"

definition parseISO_ymd :: "string \<Rightarrow> date" where
  "parseISO_ymd s =
     (let y = decimal (take 4 s); m = decimal (take 2 (drop 5 s)); d = decimal (drop 8 s)
      in if length s = 10 \<and> s ! 4 = CHR ''-'' \<and> s ! 7 = CHR ''-''
            \<and> list_all is_digit (take 4 s @ take 2 (drop 5 s) @ drop 8 s)
            \<and> 1 \<le> m \<and> m \<le> 12 \<and> 1 \<le> d \<and> d \<le> days_in_month y m
         then Some (days_from_civil y m d * msPerDay)
         else None)"

section \<open>The specification's vocabulary\<close>

text \<open>
  The specification calls an item materializable when its \<open>type\<close>, \<open>startTime\<close> and
  \<open>endTime\<close> are present and truthy and its \<open>type\<close> is one of the three recognised words.
\<close>

definition materializable :: "json \<Rightarrow> bool" where
  "materializable item =
     (truthy (get item ''type'') \<and> truthy (get item ''startTime'')
      \<and> truthy (get item ''endTime'')
      \<and> (get item ''type'' = Some (JStr ''teaching'')
         \<or> get item ''type'' = Some (JStr ''student'')
         \<or> get item ''type'' = Some (JStr ''campus'')))"

text \<open>The lowercase English weekday name of day number \<open>d\<close>; day \<open>0\<close> was a Thursday.\<close>

definition dayNameOf :: "int \<Rightarrow> string" where
  "dayNameOf d =
     [''thursday'', ''friday'', ''saturday'', ''sunday'', ''monday'', ''tuesday'', ''wednesday'']
       ! nat (d mod 7)"

text \<open>
  \<open>schedule[dayNameOf(d)]\<close> as the specification reads it: the items listed for the weekday
  of day \<open>d\<close>, and no item when the entry is absent or not a sequence.
\<close>

definition day_items :: "json \<Rightarrow> int \<Rightarrow> json list" where
  "day_items sd d =
     (case get sd ''schedule'' of
        None \<Rightarrow> []
      | Some sched \<Rightarrow>
          (case get sched (dayNameOf d) of
             Some (JArr items) \<Rightarrow> items
           | _ \<Rightarrow> []))"

text \<open>The number of events the specification expects for the days \<open>ds\<close>.\<close>

definition expected_count :: "json \<Rightarrow> int list \<Rightarrow> nat" where
  "expected_count sd ds = sum_list (map (\<lambda>d. length (filter materializable (day_items sd d))) ds)"

text \<open>A non-empty run of decimal digits, as the hour and the minute of a time are written.\<close>

definition all_digits :: "string \<Rightarrow> bool" where
  "all_digits ds = (ds \<noteq> [] \<and> list_all is_digit ds)"

text \<open>The value is a string.\<close>

definition is_str :: "json option \<Rightarrow> bool" where
  "is_str v = (case v of Some (JStr s) \<Rightarrow> True | _ \<Rightarrow> False)"

section \<open>Concrete inputs\<close>

text \<open>
  Two hosts. Both take for the library's test of a location object one that every release
  passes, a truthy title and no \<open>geo\<close> entry; no input below has a location object. The zone
  of the first host is UTC. The clock of the second is five hours behind UTC until it skips
  from 02:00 to 03:00 on Sunday 10 March 2024 (day 19792), and four hours behind from then
  on, as the clock of New York is in the first half of 2024.
\<close>

definition titled_location :: "json \<Rightarrow> bool" where
  "titled_location v = (truthy (get v ''title'') \<and> get v ''geo'' = None)"

definition utc_host :: host where
  "utc_host = \<lparr> utc = (\<lambda>t. t), location_ok = titled_location \<rparr>"

definition spring_forward_host :: host where
  "spring_forward_host =
     \<lparr> utc = (\<lambda>t. if t < 1710039600000 then t + 18000000 else t + 14400000),
       location_ok = titled_location \<rparr>"

definition sunday_2024_03_10 :: int where
  "sunday_2024_03_10 = 1710028800000"

text \<open>Monday 1 January 2024 is day 19723; the day before it is a Sunday.\<close>

definition monday_2024_01_01 :: int where
  "monday_2024_01_01 = 1704067200000"

definition sunday_2023_12_31 :: int where
  "sunday_2023_12_31 = 1703980800000"

text \<open>Scenario A of the specification: one teaching item on Mondays.\<close>

definition scenario_A :: json where
  "scenario_A =
     JObj [(''schedule'', JObj [(''monday'',
       JArr [JObj [(''type'', JStr ''teaching''), (''startTime'', JStr ''09:00''),
                   (''endTime'', JStr ''10:30''), (''className'', JStr ''CS101'')]])])]"

definition scenario_A_event :: event where
  "scenario_A_event =
     \<lparr> ev_start = Some 1704099600000, ev_end = Some 1704105000000,
       summary = JStr ''CS101'', description = JStr [], location = Some (JStr []),
       busyStatus = ''BUSY'', status = None, transparency = None \<rparr>"

text \<open>The same schedule with the start time written as the number 900.\<close>

definition numeric_time_schedule :: json where
  "numeric_time_schedule =
     JObj [(''schedule'', JObj [(''monday'',
       JArr [JObj [(''type'', JStr ''teaching''), (''startTime'', JNum 900),
                   (''endTime'', JStr ''10:30'')]])])]"

text \<open>The same schedule with a start time that holds no digit.\<close>

definition wordy_time_schedule :: json where
  "wordy_time_schedule =
     JObj [(''schedule'', JObj [(''monday'',
       JArr [JObj [(''type'', JStr ''teaching''), (''startTime'', JStr ''noon''),
                   (''endTime'', JStr ''10:30'')]])])]"



definition campus_item :: json where
  "campus_item =
     JObj [(''type'', JStr ''campus''), (''startTime'', JStr ''08:00''), (''endTime'', JStr ''12:00''),
           (''className'', JStr ''CS101''), (''description'', JStr ''Lab''),
           (''classLocation'', JStr ''Room 5'')]"

definition campus_event :: event where
  "campus_event =
     \<lparr> ev_start = Some 1704096000000, ev_end = Some 1704110400000,
       summary = JStr ''On Campus (Available for Meetings)'',
       description = JStr ''Instructor is on campus and available for meetings during this time.'',
       location = None, busyStatus = ''FREE'', status = Some ''CONFIRMED'',
       transparency = Some ''TRANSPARENT'' \<rparr>"

text \<open>
  Times: an end before the start, components beyond 23 hours and 59 minutes, and an hour
  count that leaves the range of time values.
\<close>

definition inverted_item :: json where
  "inverted_item =
     JObj [(''type'', JStr ''teaching''), (''startTime'', JStr ''10:30''), (''endTime'', JStr ''09:00'')]"

text \<open>What the calendar holds for it: from 09:00 to 10:30.\<close>

definition inverted_event :: event where
  "inverted_event =
     \<lparr> ev_start = Some 1704099600000, ev_end = Some 1704105000000,
       summary = JStr ''Teaching Hours'', description = JStr [], location = Some (JStr []),
       busyStatus = ''BUSY'', status = None, transparency = None \<rparr>"

definition inverted_schedule :: json where
  "inverted_schedule = JObj [(''schedule'', JObj [(''monday'', JArr [inverted_item])])]"

text \<open>
  An item that starts at 02:30, and the event of 10 March 2024 on the second host: from
  07:30 to 08:00 UTC, which the local clock shows as 03:30 to 04:00.
\<close>

definition gap_item :: json where
  "gap_item =
     JObj [(''type'', JStr ''teaching''), (''startTime'', JStr ''02:30''), (''endTime'', JStr ''04:00'')]"

definition gap_event :: event where
  "gap_event =
     \<lparr> ev_start = Some 1710055800000, ev_end = Some 1710057600000,
       summary = JStr ''Teaching Hours'', description = JStr [], location = Some (JStr []),
       busyStatus = ''BUSY'', status = None, transparency = None \<rparr>"

definition rollover_item :: json where
  "rollover_item =
     JObj [(''type'', JStr ''teaching''), (''startTime'', JStr ''25:70''), (''endTime'', JStr ''27:00'')]"

text \<open>The same item with the number 5 as its location.\<close>

definition numeric_location_item :: json where
  "numeric_location_item =
     JObj [(''type'', JStr ''teaching''), (''startTime'', JStr ''25:70''), (''endTime'', JStr ''27:00''),
           (''classLocation'', JNum 5)]"

definition huge_hour_item :: json where
  "huge_hour_item =
     JObj [(''type'', JStr ''teaching''), (''startTime'', JStr ''3000000000:00''),
           (''endTime'', JStr ''10:30'')]"

text \<open>Items the loop must pass over: no end time, and a type that is not recognised.\<close>

definition office_numeric_item :: json where
  "office_numeric_item =
     JObj [(''type'', JStr ''office''), (''startTime'', JNum 900), (''endTime'', JStr ''10:30'')]"

definition missing_end_item :: json where
  "missing_end_item = JObj [(''type'', JStr ''teaching''), (''startTime'', JStr ''09:00'')]"

definition office_item :: json where
  "office_item =
     JObj [(''type'', JStr ''office''), (''startTime'', JStr ''09:00''), (''endTime'', JStr ''10:30'')]"

text \<open>States of the component, and an encoder that throws.\<close>

definition reversed_state :: state where
  "reversed_state =
     \<lparr> file_name = Some ''week.cccsched'', startDate = ''2024-01-01'', endDate = ''2023-12-31'',
       scheduleData = Some scenario_A, error = [] \<rparr>"

definition unparseable_state :: state where
  "unparseable_state =
     \<lparr> file_name = Some ''week.cccsched'', startDate = ''abc'', endDate = ''2024-01-01'',
       scheduleData = Some scenario_A, error = [] \<rparr>"

definition numeric_time_state :: state where
  "numeric_time_state =
     \<lparr> file_name = Some ''week.cccsched'', startDate = ''2024-01-01'', endDate = ''2024-01-01'',
       scheduleData = Some numeric_time_schedule, error = [] \<rparr>"

definition inverted_state :: state where
  "inverted_state =
     \<lparr> file_name = Some ''week.cccsched'', startDate = ''2024-01-01'', endDate = ''2024-01-01'',
       scheduleData = Some inverted_schedule, error = [] \<rparr>"

definition monday_state :: state where
  "monday_state =
     \<lparr> file_name = Some ''week.cccsched'', startDate = ''2024-01-01'', endDate = ''2024-01-01'',
       scheduleData = Some scenario_A, error = [] \<rparr>"

definition failing_toString :: "event list \<Rightarrow> exn + string" where
  "failing_toString cal = Inl (Error ''encoding failed'')"

definition empty_state :: state where
  "empty_state =
     \<lparr> file_name = Some ''week.cccsched'', startDate = [], endDate = [], scheduleData = None,
       error = [] \<rparr>"

section \<open>The weekday of a date\<close>

lemma dayName_format: "toLowerCase (format_EEEE t) = dayNameOf (Day t)"
proof -
  define r where "r = Day t mod 7"
  have "0 \<le> r" "r < 7" by (simp_all add: r_def)
  then consider "r = 0" | "r = 1" | "r = 2" | "r = 3" | "r = 4" | "r = 5" | "r = 6"
    by linarith
  then show ?thesis
  proof cases
    case 1
    then have "(Day t + 4) mod 7 = 4" unfolding r_def by presburger
    with 1 show ?thesis
      unfolding r_def by (simp add: format_EEEE_def dayNameOf_def toLowerCase_def lower_char_def)
  next
    case 2
    then have "(Day t + 4) mod 7 = 5" unfolding r_def by presburger
    with 2 show ?thesis
      unfolding r_def by (simp add: format_EEEE_def dayNameOf_def toLowerCase_def lower_char_def)
  next
    case 3
    then have "(Day t + 4) mod 7 = 6" unfolding r_def by presburger
    with 3 show ?thesis
      unfolding r_def by (simp add: format_EEEE_def dayNameOf_def toLowerCase_def lower_char_def)
  next
    case 4
    then have "(Day t + 4) mod 7 = 0" unfolding r_def by presburger
    with 4 show ?thesis
      unfolding r_def by (simp add: format_EEEE_def dayNameOf_def toLowerCase_def lower_char_def)
  next
    case 5
    then have "(Day t + 4) mod 7 = 1" unfolding r_def by presburger
    with 5 show ?thesis
      unfolding r_def by (simp add: format_EEEE_def dayNameOf_def toLowerCase_def lower_char_def)
  next
    case 6
    then have "(Day t + 4) mod 7 = 2" unfolding r_def by presburger
    with 6 show ?thesis
      unfolding r_def by (simp add: format_EEEE_def dayNameOf_def toLowerCase_def lower_char_def)
  next
    case 7
    then have "(Day t + 4) mod 7 = 3" unfolding r_def by presburger
    with 7 show ?thesis
      unfolding r_def by (simp add: format_EEEE_def dayNameOf_def toLowerCase_def lower_char_def)
  qed
qed

section \<open>Enumerating the days\<close>

lemma mult_le_iff_le_div:
  fixes a e m :: int
  assumes "0 < m"
  shows "(a * m \<le> e) = (a \<le> e div m)"
proof
  assume "a * m \<le> e"
  then have "(a * m) div m \<le> e div m" using assms by (rule zdiv_mono1)
  with assms show "a \<le> e div m" by simp
next
  assume "a \<le> e div m"
  with assms have 1: "a * m \<le> (e div m) * m" by (simp add: mult_right_mono)
  from assms have 2: "0 \<le> e mod m" by simp
  have 3: "(e div m) * m + e mod m = e" by simp
  from 1 2 3 show "a * m \<le> e" by linarith
qed

lemma day_le_iff: "(a * msPerDay \<le> e) = (a \<le> Day e)"
  unfolding Day_def by (rule mult_le_iff_le_div) (simp add: msPerDay_def)

lemma eachDay_loop_upto:
  "eachDay_loop (a * msPerDay) e = map (\<lambda>d. d * msPerDay) [a..Day e]"
proof (induction "nat (Day e - a + 1)" arbitrary: a)
  case 0
  then have lt: "Day e < a" by simp
  then have "\<not> a * msPerDay \<le> e" by (simp add: day_le_iff)
  moreover from lt have "[a..Day e] = []" by simp
  ultimately show ?case by (simp add: eachDay_loop.simps)
next
  case (Suc n)
  then have le: "a \<le> Day e" by simp
  then have c: "a * msPerDay \<le> e" by (simp add: day_le_iff)
  have s: "a * msPerDay + msPerDay = (a + 1) * msPerDay" by (simp add: algebra_simps)
  from Suc have ih: "eachDay_loop ((a + 1) * msPerDay) e = map (\<lambda>d. d * msPerDay) [a + 1..Day e]"
    by simp
  from le have u: "[a..Day e] = a # [a + 1..Day e]" by (simp add: upto_rec1)
  have "eachDay_loop (a * msPerDay) e = a * msPerDay # eachDay_loop ((a + 1) * msPerDay) e"
    using c s eachDay_loop.simps [of "a * msPerDay" e] by simp
  with ih u show ?case by simp
qed

lemma Day_mult: "Day (d * msPerDay) = d"
  by (simp add: Day_def msPerDay_def)

lemma map_Day_days: "map Day (map (\<lambda>d. d * msPerDay) ds) = ds"
  by (induction ds) (simp_all add: Day_mult)

section \<open>Counting the events\<close>

lemma createEvent_Inr:
  assumes "createEvent host e cal = Inr cal'"
  shows "\<exists>s t. ev_start e = Some s \<and> ev_end e = Some t
     \<and> location_accepted host (location e)
     \<and> cal' = cal @ [e\<lparr>ev_start := Some (min s t), ev_end := Some (max s t)\<rparr>]"
proof -
  from assms obtain s t where st: "ev_start e = Some s" "ev_end e = Some t"
    by (auto simp: createEvent_def split: option.splits)
  with assms have l: "location_accepted host (location e)"
    by (auto simp: createEvent_def split: if_splits)
  have "cal' = cal @ [e\<lparr>ev_start := Some (min s t), ev_end := Some (max s t)\<rparr>]"
  proof (cases "s > t")
    case True
    with assms st l show ?thesis by (simp add: createEvent_def min_def max_def)
  next
    case False
    from st have "e\<lparr>ev_start := Some s, ev_end := Some t\<rparr> = e" by (cases e) simp
    with False have "e\<lparr>ev_start := Some (min s t), ev_end := Some (max s t)\<rparr> = e"
      by (simp add: min_def max_def)
    moreover from False assms st l have "cal' = cal @ [e]" by (simp add: createEvent_def)
    ultimately show ?thesis by simp
  qed
  with st l show ?thesis by blast
qed

lemma get_truthy: "get item k = Some v \<Longrightarrow> truthy (Some item)"
  by (cases item) simp_all

lemma process_item_count:
  assumes "process_item host day item cal = Inr cal'"
  shows "\<exists>evs. cal' = cal @ evs \<and> length evs = (if materializable item then 1 else 0)"
  using assms
  by (auto simp: process_item_def materializable_def split: if_splits sum.splits
      dest!: createEvent_Inr dest: get_truthy)

lemma forEach_item_count:
  "forEach_item host day items cal = Inr cal' \<Longrightarrow>
     \<exists>evs. cal' = cal @ evs \<and> length evs = length (filter materializable items)"
proof (induction items arbitrary: cal)
  case Nil
  then show ?case by simp
next
  case (Cons item items)
  from Cons.prems obtain c1 where p: "process_item host day item cal = Inr c1"
    and f: "forEach_item host day items c1 = Inr cal'"
    by (auto split: sum.splits)
  from process_item_count [OF p] obtain e1 where
    e1: "c1 = cal @ e1" "length e1 = (if materializable item then 1 else 0)" by blast
  from Cons.IH [OF f] obtain e2 where
    e2: "cal' = c1 @ e2" "length e2 = length (filter materializable items)" by blast
  from e1 e2 have "cal' = cal @ (e1 @ e2)" by simp
  moreover from e1 e2 have "length (e1 @ e2) = length (filter materializable (item # items))" by simp
  ultimately show ?case by blast
qed

lemma process_day_count:
  assumes "process_day host sd day cal = Inr cal'"
  shows "\<exists>evs. cal' = cal @ evs
           \<and> length evs = length (filter materializable (day_items sd (Day day)))"
proof (cases "get sd ''schedule''")
  case None
  with assms show ?thesis by (simp add: process_day_def member_def)
next
  case (Some sched)
  show ?thesis
  proof (cases "sched = JNull")
    case True
    with Some assms show ?thesis by (simp add: process_day_def member_def)
  next
    case False
    with Some have m: "member (get sd ''schedule'') (toLowerCase (format_EEEE day))
        = Inr (get sched (dayNameOf (Day day)))"
      by (cases sched) (simp_all add: member_def dayName_format)
    show ?thesis
    proof (cases "\<exists>items. get sched (dayNameOf (Day day)) = Some (JArr items)")
      case True
      then obtain items where it: "get sched (dayNameOf (Day day)) = Some (JArr items)" by blast
      with m assms have "forEach_item host day items cal = Inr cal'" by (simp add: process_day_def)
      from forEach_item_count [OF this] it Some show ?thesis by (simp add: day_items_def)
    next
      case False
      with m assms have "cal' = cal"
        by (auto simp: process_day_def split: option.splits json.splits)
      moreover from False Some have "day_items sd (Day day) = []"
        by (auto simp: day_items_def split: option.splits json.splits)
      ultimately show ?thesis by simp
    qed
  qed
qed

lemma forEach_day_count:
  "forEach_day host sd days cal = Inr cal' \<Longrightarrow>
     \<exists>evs. cal' = cal @ evs \<and> length evs = expected_count sd (map Day days)"
proof (induction days arbitrary: cal)
  case Nil
  then show ?case by (simp add: expected_count_def)
next
  case (Cons day days)
  from Cons.prems obtain c1 where p: "process_day host sd day cal = Inr c1"
    and f: "forEach_day host sd days c1 = Inr cal'"
    by (auto split: sum.splits)
  from process_day_count [OF p] obtain e1 where
    e1: "c1 = cal @ e1" "length e1 = length (filter materializable (day_items sd (Day day)))"
    by blast
  from Cons.IH [OF f] obtain e2 where
    e2: "cal' = c1 @ e2" "length e2 = expected_count sd (map Day days)" by blast
  from e1 e2 have "cal' = cal @ (e1 @ e2)" by simp
  moreover from e1 e2 have "length (e1 @ e2) = expected_count sd (map Day (day # days))"
    by (simp add: expected_count_def)
  ultimately show ?case by blast
qed

lemma forEach_day_length:
  assumes "forEach_day host sd (map (\<lambda>d. d * msPerDay) ds) [] = Inr evs"
  shows "length evs = expected_count sd ds"
  using forEach_day_count [OF assms] unfolding map_Day_days by simp


lemma or_else_falsy: "\<not> truthy x \<Longrightarrow> or_else x y = y"
  by (cases x) (simp_all add: or_else_def)

lemma process_item_emits:
  assumes "materializable item" and "process_item host day item cal = Inr cal'"
  shows "\<exists>ev s t. event_time host day (get item ''startTime'') = Inr (Some s)
     \<and> event_time host day (get item ''endTime'') = Inr (Some t)
     \<and> cal' = cal @ [ev]
     \<and> ev_start ev = Some (min s t) \<and> ev_end ev = Some (max s t)"
proof -
  from assms(1) have t: "truthy (Some item)" by (auto simp: materializable_def dest: get_truthy)
  with assms show ?thesis
    by (auto simp: process_item_def materializable_def split: sum.splits dest!: createEvent_Inr)
qed

lemma string_location_accepted:
  assumes "\<not> truthy x \<or> is_str x"
  shows "location_accepted host (Some (or_else x (JStr [])))"
proof (cases "truthy x")
  case False
  then show ?thesis by (simp add: or_else_falsy location_accepted_def)
next
  case True
  with assms obtain s where "x = Some (JStr s)"
    by (auto simp: is_str_def split: option.splits json.splits)
  then show ?thesis by (simp add: or_else_def location_accepted_def)
qed

lemma process_item_success:
  assumes "materializable item"
    and "event_time host day (get item ''startTime'') = Inr (Some ts)"
    and "event_time host day (get item ''endTime'') = Inr (Some te)"
    and "get item ''type'' = Some (JStr ''campus'')
       \<or> \<not> truthy (get item ''classLocation'') \<or> is_str (get item ''classLocation'')"
  shows "\<exists>ev. process_item host day item cal = Inr (cal @ [ev])
     \<and> ev_start ev = Some (min ts te) \<and> ev_end ev = Some (max ts te)"
proof -
  from assms(1) have t: "truthy (Some item)" by (auto simp: materializable_def dest: get_truthy)
  have n: "location_accepted host None" by (simp add: location_accepted_def)
  show ?thesis
  proof (cases "get item ''type'' = Some (JStr ''campus'')")
    case True
    with assms(1-3) t n show ?thesis
      by (auto simp: process_item_def materializable_def createEvent_def min_def max_def)
  next
    case False
    with assms(4) have "location_accepted host
        (Some (or_else (get item ''classLocation'') (JStr [])))"
      by (auto intro: string_location_accepted)
    with False assms(1-3) t show ?thesis
      by (auto simp: process_item_def materializable_def createEvent_def min_def max_def)
  qed
qed

section \<open>Doubles that hold whole numbers\<close>

lemma bit_length_le: "a < 2 ^ k \<Longrightarrow> bit_length a \<le> k"
proof (induction k arbitrary: a)
  case 0
  then show ?case by (simp add: bit_length.simps)
next
  case (Suc k)
  show ?case
  proof (cases "a \<le> 0")
    case True
    then show ?thesis by (simp add: bit_length.simps)
  next
    case False
    from Suc.prems have "a div 2 < 2 ^ k" by simp
    then have "bit_length (a div 2) \<le> k" by (rule Suc.IH)
    with False show ?thesis by (simp add: bit_length.simps [of a])
  qed
qed

lemma round_double_small:
  assumes "\<bar>n\<bar> < 2 ^ 53"
  shows "round_double n = n"
proof -
  from assms have "bit_length \<bar>n\<bar> \<le> 53" by (rule bit_length_le)
  then show ?thesis by (simp add: round_double_def Let_def)
qed

lemma round_double_even:
  assumes "\<bar>n\<bar> < 2 ^ 54" and "even n"
  shows "round_double n = n"
proof -
  from assms(1) have b: "bit_length \<bar>n\<bar> \<le> 54" by (rule bit_length_le)
  show ?thesis
  proof (cases "bit_length \<bar>n\<bar> - 53 = 0")
    case True
    then show ?thesis by (simp add: round_double_def Let_def)
  next
    case False
    with b have e: "bit_length \<bar>n\<bar> - 53 = 1" by simp
    from assms(2) have m: "\<bar>n\<bar> mod 2 = 0" by presburger
    from assms(2) have d: "\<bar>n\<bar> div 2 * 2 = \<bar>n\<bar>" by presburger
    have s: "sgn n * \<bar>n\<bar> = n" by (simp add: sgn_if)
    from e m d s show ?thesis by (simp add: round_double_def Let_def)
  qed
qed

lemma to_double_small:
  assumes "\<bar>n\<bar> \<le> 8640000000000000"
  shows "to_double n = Some n"
proof -
  from assms have a: "\<bar>n\<bar> < 2 ^ 53" by simp
  have "(2::int) ^ 53 < 2 ^ 1024" by (rule power_strict_increasing) simp_all
  with a have "\<bar>n\<bar> < 2 ^ 1024" by linarith
  with a show ?thesis by (simp add: to_double_def round_double_small Let_def)
qed

lemma to_double_even:
  assumes "\<bar>n\<bar> \<le> 17280000000000000" and "even n"
  shows "to_double n = Some n"
proof -
  from assms(1) have a: "\<bar>n\<bar> < 2 ^ 54" by simp
  have "(2::int) ^ 54 < 2 ^ 1024" by (rule power_strict_increasing) simp_all
  with a have "\<bar>n\<bar> < 2 ^ 1024" by linarith
  with a assms(2) show ?thesis by (simp add: to_double_def round_double_even Let_def)
qed

lemma setHours_exact:
  assumes "0 \<le> h" and "0 \<le> m"
    and "\<bar>d * 86400000\<bar> \<le> 8640000000000000"
    and "\<bar>d * 86400000 + h * 3600000 + m * 60000\<bar> \<le> 8640000000000000"
    and "\<bar>utc host (d * 86400000 + h * 3600000 + m * 60000)\<bar> \<le> 8640000000000000"
  shows "setHours host (d * msPerDay) (Some h) (Some m)
     = Some (utc host (d * 86400000 + h * 3600000 + m * 60000))"
proof -
  from assms have b: "h * 3600000 + m * 60000 \<le> 17280000000000000" by linarith
  from assms(1,2) b have h: "to_double h = Some h" by (intro to_double_small) linarith
  from assms(1,2) b have m: "to_double m = Some m" by (intro to_double_small) linarith
  from assms(1,2) b have hh: "to_double (h * 3600000) = Some (h * 3600000)"
    by (intro to_double_even) (linarith, simp)
  from assms(1,2) b have mm: "to_double (m * 60000) = Some (m * 60000)"
    by (intro to_double_even) (linarith, simp)
  from assms(1,2) b have s: "to_double (h * 3600000 + m * 60000)
      = Some (h * 3600000 + m * 60000)"
    by (intro to_double_even) (linarith, simp)
  from h m hh mm s have t: "MakeTime (Option.bind (Some h) to_double)
      (Option.bind (Some m) to_double) 0 0 = Some (h * 3600000 + m * 60000)"
    by (simp add: MakeTime_def dmul_def dadd_def msPerHour_def msPerMinute_def)
  from assms(3) have dd: "to_double (d * 86400000) = Some (d * 86400000)"
    by (rule to_double_small)
  from assms(4) have tv: "to_double (d * 86400000 + (h * 3600000 + m * 60000))
      = Some (d * 86400000 + (h * 3600000 + m * 60000))"
    by (intro to_double_small) linarith
  from dd tv have md: "MakeDate d (Some (h * 3600000 + m * 60000))
      = Some (d * 86400000 + h * 3600000 + m * 60000)"
    by (simp add: MakeDate_def dadd_def msPerDay_def add.assoc)
  have z: "(d * msPerDay) mod msPerMinute div 1000 = 0" "(d * msPerDay) mod 1000 = 0"
    by (simp_all add: msPerDay_def msPerMinute_def)
  from t md z assms(5) show ?thesis
    by (simp add: setHours_def Day_mult TimeClip_def)
qed

section \<open>Times written with digits\<close>

lemma is_digit_cases:
  "is_digit c \<Longrightarrow> c \<noteq> CHR '':'' \<and> c \<noteq> CHR ''-'' \<and> c \<noteq> CHR ''+'' \<and> \<not> is_space c"
  by (auto simp: is_digit_def is_space_def)

lemma split_colon_no_colon: "CHR '':'' \<notin> set xs \<Longrightarrow> split_colon xs = [xs]"
  by (induction xs) auto

lemma split_colon_two:
  "CHR '':'' \<notin> set hs \<Longrightarrow> CHR '':'' \<notin> set ms \<Longrightarrow> split_colon (hs @ CHR '':'' # ms) = [hs, ms]"
  by (induction hs) (auto simp: split_colon_no_colon)

lemma all_digits_no_colon: "all_digits ds \<Longrightarrow> CHR '':'' \<notin> set ds"
  by (auto simp: all_digits_def list_all_iff dest: is_digit_cases)

lemma parseInt_digits:
  assumes "all_digits ds"
  shows "parseInt (Some ds) = Some (decimal ds)"
proof -
  from assms obtain c cs where ds: "ds = c # cs" and c: "is_digit c" and cs: "list_all is_digit cs"
    by (cases ds) (auto simp: all_digits_def)
  from c have "\<not> is_space c" "c \<noteq> CHR ''-''" "c \<noteq> CHR ''+''"
    by (auto dest: is_digit_cases)
  moreover from c cs have "takeWhile is_digit (c # cs) = c # cs"
    by (simp add: list_all_iff)
  ultimately show ?thesis unfolding ds
    by (simp add: parseInt_def Let_def)
qed

lemma decimal_nonneg:
  assumes "list_all is_digit ds"
  shows "0 \<le> decimal ds"
proof -
  have "0 \<le> a \<Longrightarrow> list_all is_digit xs \<Longrightarrow> 0 \<le> foldl (\<lambda>a c. 10 * a + digit_val c) a xs"
    for a xs
  proof (induction xs arbitrary: a)
    case Nil
    then show ?case by simp
  next
    case (Cons x xs)
    from Cons.prems(2) have "0 \<le> digit_val x"
      by (auto simp: is_digit_def digit_val_def)
    with Cons.prems(1) have "0 \<le> 10 * a + digit_val x" by simp
    with Cons.prems(2) show ?case by (simp add: Cons.IH)
  qed
  with assms show ?thesis by (simp add: decimal_def)
qed

lemma event_time_digits:
  assumes "all_digits hs" and "all_digits ms"
    and "\<bar>d * 86400000\<bar> \<le> 8640000000000000"
    and "\<bar>d * 86400000 + decimal hs * 3600000 + decimal ms * 60000\<bar> \<le> 8640000000000000"
    and "\<bar>utc host (d * 86400000 + decimal hs * 3600000 + decimal ms * 60000)\<bar>
           \<le> 8640000000000000"
  shows "event_time host (d * msPerDay) (Some (JStr (hs @ CHR '':'' # ms)))
     = Inr (Some (utc host (d * 86400000 + decimal hs * 3600000 + decimal ms * 60000)))"
proof -
  from assms(1,2) have sp: "split_colon (hs @ CHR '':'' # ms) = [hs, ms]"
    by (simp add: split_colon_two all_digits_no_colon)
  from assms(1,2) have n: "0 \<le> decimal hs" "0 \<le> decimal ms"
    by (simp_all add: all_digits_def decimal_nonneg)
  from setHours_exact [OF n assms(3,4,5)] sp assms(1,2) show ?thesis
    by (simp add: event_time_def at_index_def parseInt_digits)
qed

section \<open>Claims\<close>

text \<open>
  C1 (amended). On an interval with \<open>s \<le> e\<close>, whenever the expansion completes without
  raising, it emits exactly as many events as the sum, over every day of the interval
  (weekends included), of the number of materializable items listed for that day's weekday.
  This holds for both releases of the date library.
\<close>

theorem expand_event_count:
  assumes "s \<le> e" and "expand host ver sd (Some s) (Some e) = Inr evs"
  shows "length evs = expected_count sd [Day s..Day e]"
proof -
  from assms(1) have "eachDayOfInterval ver (Some s) (Some e)
      = Inr (map (\<lambda>d. d * msPerDay) [Day s..Day e])"
    by (cases ver) (simp_all add: eachDay_loop_upto)
  with assms(2) have "forEach_day host sd (map (\<lambda>d. d * msPerDay) [Day s..Day e]) [] = Inr evs"
    by (simp add: expand_def)
  then show ?thesis by (rule forEach_day_length)
qed

theorem expand_event_count_witness:
  "monday_2024_01_01 \<le> monday_2024_01_01
   \<and> expand utc_host V2 scenario_A (Some monday_2024_01_01) (Some monday_2024_01_01)
       = Inr [scenario_A_event]
   \<and> length [scenario_A_event]
       = expected_count scenario_A [Day monday_2024_01_01..Day monday_2024_01_01]"
proof -
  have r: "expand utc_host V2 scenario_A (Some monday_2024_01_01) (Some monday_2024_01_01)
      = Inr [scenario_A_event]"
    by code_simp
  from expand_event_count [OF order_refl r] r show ?thesis by simp
qed

text \<open>
  C1 as stated fails: an item that is materializable in the specification's sense (its
  \<open>type\<close>, \<open>startTime\<close> and \<open>endTime\<close> are truthy and the type is recognised) but whose start
  time is the number 900, or a text without digits, makes the expansion raise, so no event
  is emitted where the sum is 1.
\<close>

theorem expand_event_count_counterexample:
  "expand utc_host V2 numeric_time_schedule (Some monday_2024_01_01) (Some monday_2024_01_01)
     = Inl TypeError
   \<and> expand utc_host V3 numeric_time_schedule (Some monday_2024_01_01) (Some monday_2024_01_01)
     = Inl TypeError
   \<and> expected_count numeric_time_schedule [Day monday_2024_01_01..Day monday_2024_01_01] = 1
   \<and> expand utc_host V2 wordy_time_schedule (Some monday_2024_01_01) (Some monday_2024_01_01)
     = Inl (Error ''`start` has to be a valid date!'')
   \<and> expected_count wordy_time_schedule [Day monday_2024_01_01..Day monday_2024_01_01] = 1"
  by code_simp

text \<open>
  C2 (amended). When the end is before the start, the outcome depends on the release of the
  date library and is never an unconditional empty success. With release 2 the enumeration
  throws \<open>RangeError\<close>. With releases 3 and 4 the days from the day of the start down to
  the day of the end are walked in descending order, and a completed expansion emits one
  event per materializable item of those days.
\<close>

theorem reversed_interval:
  assumes "e < s"
  shows "expand host V2 sd (Some s) (Some e) = Inl RangeError
     \<and> expand host V3 sd (Some s) (Some e)
         = forEach_day host sd (map (\<lambda>d. d * msPerDay) (rev [Day e..Day s])) []
     \<and> (\<forall>evs. expand host V3 sd (Some s) (Some e) = Inr evs
          \<longrightarrow> length evs = expected_count sd (rev [Day e..Day s]))"
proof -
  from assms have 2: "expand host V2 sd (Some s) (Some e) = Inl RangeError"
    by (simp add: expand_def)
  from assms have 3: "expand host V3 sd (Some s) (Some e)
      = forEach_day host sd (map (\<lambda>d. d * msPerDay) (rev [Day e..Day s])) []"
    by (simp add: expand_def eachDay_loop_upto rev_map)
  have "\<forall>evs. expand host V3 sd (Some s) (Some e) = Inr evs
          \<longrightarrow> length evs = expected_count sd (rev [Day e..Day s])"
    unfolding 3 by (auto dest: forEach_day_length)
  with 2 3 show ?thesis by blast
qed

theorem reversed_interval_witness:
  "sunday_2023_12_31 < monday_2024_01_01
   \<and> expand utc_host V2 scenario_A (Some monday_2024_01_01) (Some sunday_2023_12_31) = Inl RangeError
   \<and> expand utc_host V3 scenario_A (Some monday_2024_01_01) (Some sunday_2023_12_31)
       = forEach_day utc_host scenario_A
           (map (\<lambda>d. d * msPerDay) (rev [Day sunday_2023_12_31..Day monday_2024_01_01])) []"
proof -
  have h: "sunday_2023_12_31 < monday_2024_01_01"
    by (simp add: sunday_2023_12_31_def monday_2024_01_01_def)
  from reversed_interval [OF h, where host = utc_host and sd = scenario_A] h show ?thesis by blast
qed

text \<open>
  C2 as stated fails: with Monday 1 January 2024 as start and the Sunday before it as end,
  release 2 raises (the handler reports the generic error and saves nothing) and release 3
  emits the Monday event of scenario A.
\<close>

theorem reversed_interval_counterexample:
  "expand utc_host V2 scenario_A (Some monday_2024_01_01) (Some sunday_2023_12_31) = Inl RangeError
   \<and> generateICalFile utc_host parseISO_ymd V2 (Inr :: event list \<Rightarrow> exn + event list) reversed_state
       = (reversed_state\<lparr>error :=
            ''Error generating iCal file. Please check your schedule data and try again.''\<rparr>,
          None)
   \<and> expand utc_host V3 scenario_A (Some monday_2024_01_01) (Some sunday_2023_12_31)
       = Inr [scenario_A_event]"
  by code_simp

text \<open>
  C3 (amended). An event is emitted for an item only if the item is materializable. An item
  that is not materializable never yields an event. It is passed over without error when its
  \<open>type\<close>, \<open>startTime\<close> or \<open>endTime\<close> is missing or falsy, or when its \<open>startTime\<close> and
  \<open>endTime\<close> are both strings; otherwise (all three truthy, a time that is not a string) the
  call of \<open>split\<close> throws \<open>TypeError\<close> before the type is looked at.
\<close>

theorem unmaterializable_item:
  "(process_item host day item cal = Inr cal' \<and> cal' \<noteq> cal \<longrightarrow> materializable item)
   \<and> (\<not> materializable item \<longrightarrow>
        process_item host day item cal
          = (if \<not> truthy (get item ''type'') \<or> \<not> truthy (get item ''startTime'')
                \<or> \<not> truthy (get item ''endTime'')
                \<or> is_str (get item ''startTime'') \<and> is_str (get item ''endTime'')
             then Inr cal else Inl TypeError))"
proof -
  have 1: "process_item host day item cal = Inr cal' \<and> cal' \<noteq> cal \<longrightarrow> materializable item"
    using process_item_count [of host day item cal cal'] by (auto split: if_splits)
  have 2: "process_item host day item cal
          = (if \<not> truthy (get item ''type'') \<or> \<not> truthy (get item ''startTime'')
                \<or> \<not> truthy (get item ''endTime'')
                \<or> is_str (get item ''startTime'') \<and> is_str (get item ''endTime'')
             then Inr cal else Inl TypeError)" if n: "\<not> materializable item"
  proof (cases "truthy (get item ''type'') \<and> truthy (get item ''startTime'')
                \<and> truthy (get item ''endTime'')")
    case False
    then show ?thesis by (auto simp: process_item_def)
  next
    case True
    then have t: "truthy (Some item)" by (cases item) auto
    from True n have ty: "get item ''type'' \<noteq> Some (JStr ''teaching'')"
      "get item ''type'' \<noteq> Some (JStr ''student'')" "get item ''type'' \<noteq> Some (JStr ''campus'')"
      by (auto simp: materializable_def)
    show ?thesis
    proof (cases "is_str (get item ''startTime'')")
      case s: True
      show ?thesis
      proof (cases "is_str (get item ''endTime'')")
        case e: True
        from s e True t ty show ?thesis
          by (auto simp: process_item_def event_time_def is_str_def split: option.splits json.splits)
      next
        case e: False
        from s e True t ty show ?thesis
          by (auto simp: process_item_def event_time_def is_str_def split: option.splits json.splits)
      qed
    next
      case s: False
      from s True t ty show ?thesis
        by (auto simp: process_item_def event_time_def is_str_def split: option.splits json.splits)
    qed
  qed
  from 1 2 show ?thesis by blast
qed

theorem unmaterializable_item_witness:
  "\<not> materializable missing_end_item
   \<and> process_item utc_host monday_2024_01_01 missing_end_item [] = Inr []
   \<and> \<not> materializable office_item
   \<and> process_item utc_host monday_2024_01_01 office_item [] = Inr []"
proof -
  have m: "\<not> materializable missing_end_item" "\<not> materializable office_item"
    by code_simp+
  have "\<not> truthy (get missing_end_item ''endTime'')" by code_simp
  with m(1) unmaterializable_item [of utc_host monday_2024_01_01 missing_end_item "[]" "[]"]
  have 1: "process_item utc_host monday_2024_01_01 missing_end_item [] = Inr []" by simp
  have "is_str (get office_item ''startTime'')" "is_str (get office_item ''endTime'')"
    by code_simp+
  with m(2) unmaterializable_item [of utc_host monday_2024_01_01 office_item "[]" "[]"]
  have 2: "process_item utc_host monday_2024_01_01 office_item [] = Inr []" by simp
  from m 1 2 show ?thesis by simp
qed

text \<open>
  C3 as stated fails: an item of the unrecognised type \<open>office\<close> whose start time is the
  number 900 is not materializable, yet it raises \<open>TypeError\<close>.
\<close>

theorem unmaterializable_item_counterexample:
  "\<not> materializable office_numeric_item
   \<and> process_item utc_host monday_2024_01_01 office_numeric_item [] = Inl TypeError"
  by code_simp



text \<open>
  C5. For every materialized item of type \<open>campus\<close>, the event handed to the calendar has
  the fixed summary and description, no location, the busy status \<open>FREE\<close>, the status
  \<open>CONFIRMED\<close> and the transparency \<open>TRANSPARENT\<close>, whatever the item's \<open>className\<close>,
  \<open>description\<close> and \<open>classLocation\<close> are.
\<close>

theorem campus_event:
  assumes "materializable item"
    and "get item ''type'' = Some (JStr ''campus'')"
    and "process_item host day item cal = Inr cal'"
  shows "\<exists>ev. cal' = cal @ [ev]
     \<and> summary ev = JStr ''On Campus (Available for Meetings)''
     \<and> description ev
         = JStr ''Instructor is on campus and available for meetings during this time.''
     \<and> location ev = None
     \<and> busyStatus ev = ''FREE''
     \<and> status ev = Some ''CONFIRMED''
     \<and> transparency ev = Some ''TRANSPARENT''"
proof -
  from assms(1,2) have t: "truthy (Some item)" by (auto dest: get_truthy)
  from assms t obtain es ee where
    c: "createEvent host
          \<lparr> ev_start = es, ev_end = ee,
            summary = JStr ''On Campus (Available for Meetings)'',
            description = JStr
              ''Instructor is on campus and available for meetings during this time.'',
            location = None, busyStatus = ''FREE'', status = Some ''CONFIRMED'',
            transparency = Some ''TRANSPARENT'' \<rparr> cal = Inr cal'"
    by (auto simp: process_item_def materializable_def split: sum.splits)
  from createEvent_Inr [OF c] show ?thesis by auto
qed

theorem campus_event_witness:
  "materializable campus_item
   \<and> get campus_item ''type'' = Some (JStr ''campus'')
   \<and> process_item utc_host monday_2024_01_01 campus_item [] = Inr [campus_event]
   \<and> (\<exists>ev. [campus_event] = [ev]
         \<and> summary ev = JStr ''On Campus (Available for Meetings)''
         \<and> description ev
             = JStr ''Instructor is on campus and available for meetings during this time.''
         \<and> location ev = None
         \<and> busyStatus ev = ''FREE''
         \<and> status ev = Some ''CONFIRMED''
         \<and> transparency ev = Some ''TRANSPARENT'')"
proof -
  have m: "materializable campus_item" by code_simp
  have t: "get campus_item ''type'' = Some (JStr ''campus'')" by code_simp
  have p: "process_item utc_host monday_2024_01_01 campus_item [] = Inr [campus_event]" by code_simp
  from campus_event [OF m t p] m t p show ?thesis by simp
qed

text \<open>
  C6. Once the guard on the inputs has passed, an exception raised while the days are
  enumerated, while an item is processed, or while the calendar is encoded ends the
  invocation with the one generic error message and with nothing handed to \<open>saveAs\<close>.
\<close>

theorem exception_delivers_nothing:
  assumes "scheduleData st = Some sd" and "truthy (Some sd)"
    and "startDate st \<noteq> []" and "endDate st \<noteq> []"
    and "eachDayOfInterval ver (parseISO (startDate st)) (parseISO (endDate st)) = Inl x
       \<or> (\<exists>days. eachDayOfInterval ver (parseISO (startDate st)) (parseISO (endDate st))
                    = Inr days
                 \<and> forEach_day host sd days [] = Inl x)
       \<or> (\<exists>cal. expand host ver sd (parseISO (startDate st)) (parseISO (endDate st)) = Inr cal
                 \<and> toString cal = Inl x)"
  shows "generateICalFile host parseISO ver toString st
     = (st\<lparr>error :=
             ''Error generating iCal file. Please check your schedule data and try again.''\<rparr>,
        None)"
proof -
  from assms(5) have "try_block host parseISO ver toString sd st = Inl x"
    by (auto simp: try_block_def expand_def)
  with assms(1-4) show ?thesis by (simp add: generateICalFile_def)
qed

theorem exception_delivers_nothing_witness:
  "generateICalFile utc_host parseISO_ymd V2 (Inr :: event list \<Rightarrow> exn + event list) reversed_state
     = (reversed_state\<lparr>error :=
          ''Error generating iCal file. Please check your schedule data and try again.''\<rparr>,
        None)
   \<and> generateICalFile utc_host parseISO_ymd V3 (Inr :: event list \<Rightarrow> exn + event list) numeric_time_state
     = (numeric_time_state\<lparr>error :=
          ''Error generating iCal file. Please check your schedule data and try again.''\<rparr>,
        None)
   \<and> generateICalFile utc_host parseISO_ymd V3 failing_toString monday_state
     = (monday_state\<lparr>error :=
          ''Error generating iCal file. Please check your schedule data and try again.''\<rparr>,
        None)"
proof -
  have a: "scheduleData reversed_state = Some scenario_A" "truthy (Some scenario_A)"
    "startDate reversed_state \<noteq> []" "endDate reversed_state \<noteq> []"
    by code_simp+
  have a5: "eachDayOfInterval V2 (parseISO_ymd (startDate reversed_state))
      (parseISO_ymd (endDate reversed_state)) = Inl RangeError"
    by code_simp
  have b: "scheduleData numeric_time_state = Some numeric_time_schedule"
    "truthy (Some numeric_time_schedule)"
    "startDate numeric_time_state \<noteq> []" "endDate numeric_time_state \<noteq> []"
    by code_simp+
  have b5: "eachDayOfInterval V3 (parseISO_ymd (startDate numeric_time_state))
      (parseISO_ymd (endDate numeric_time_state)) = Inr [monday_2024_01_01]
    \<and> forEach_day utc_host numeric_time_schedule [monday_2024_01_01] [] = Inl TypeError"
    by code_simp
  have c: "scheduleData monday_state = Some scenario_A" "truthy (Some scenario_A)"
    "startDate monday_state \<noteq> []" "endDate monday_state \<noteq> []"
    by code_simp+
  have c5: "expand utc_host V3 scenario_A (parseISO_ymd (startDate monday_state))
      (parseISO_ymd (endDate monday_state)) = Inr [scenario_A_event]
    \<and> failing_toString [scenario_A_event] = Inl (Error ''encoding failed'')"
    by code_simp
  from a5 have a6: "eachDayOfInterval V2 (parseISO_ymd (startDate reversed_state))
        (parseISO_ymd (endDate reversed_state)) = Inl RangeError
       \<or> (\<exists>days. eachDayOfInterval V2 (parseISO_ymd (startDate reversed_state))
                    (parseISO_ymd (endDate reversed_state)) = Inr days
                 \<and> forEach_day utc_host scenario_A days [] = Inl RangeError)
       \<or> (\<exists>cal. expand utc_host V2 scenario_A (parseISO_ymd (startDate reversed_state))
                    (parseISO_ymd (endDate reversed_state)) = Inr cal
                 \<and> (Inr :: event list \<Rightarrow> exn + event list) cal = Inl RangeError)"
    by blast
  from b5 have b6: "eachDayOfInterval V3 (parseISO_ymd (startDate numeric_time_state))
        (parseISO_ymd (endDate numeric_time_state)) = Inl TypeError
       \<or> (\<exists>days. eachDayOfInterval V3 (parseISO_ymd (startDate numeric_time_state))
                    (parseISO_ymd (endDate numeric_time_state)) = Inr days
                 \<and> forEach_day utc_host numeric_time_schedule days [] = Inl TypeError)
       \<or> (\<exists>cal. expand utc_host V3 numeric_time_schedule (parseISO_ymd (startDate numeric_time_state))
                    (parseISO_ymd (endDate numeric_time_state)) = Inr cal
                 \<and> (Inr :: event list \<Rightarrow> exn + event list) cal = Inl TypeError)"
    by blast
  from c5 have c6: "eachDayOfInterval V3 (parseISO_ymd (startDate monday_state))
        (parseISO_ymd (endDate monday_state)) = Inl (Error ''encoding failed'')
       \<or> (\<exists>days. eachDayOfInterval V3 (parseISO_ymd (startDate monday_state))
                    (parseISO_ymd (endDate monday_state)) = Inr days
                 \<and> forEach_day utc_host scenario_A days [] = Inl (Error ''encoding failed''))
       \<or> (\<exists>cal. expand utc_host V3 scenario_A (parseISO_ymd (startDate monday_state))
                    (parseISO_ymd (endDate monday_state)) = Inr cal
                 \<and> failing_toString cal = Inl (Error ''encoding failed''))"
    by blast
  from exception_delivers_nothing [OF a a6] exception_delivers_nothing [OF b b6]
    exception_delivers_nothing [OF c c6]
  show ?thesis by blast
qed

text \<open>
  C7 (amended). The handler answers with the message asking for a file and the two dates,
  and saves nothing, exactly when no schedule is loaded or the start or the end text is
  empty. The guard does not parse the dates: a non-empty text passes it whether or not it is
  a valid calendar date.
\<close>

theorem missing_date_range_guard:
  "((error (fst (generateICalFile host parseISO ver toString st))
       = ''Please upload a file and set start and end dates.'')
     = (\<not> truthy (scheduleData st) \<or> startDate st = [] \<or> endDate st = []))
   \<and> (\<not> truthy (scheduleData st) \<or> startDate st = [] \<or> endDate st = [] \<longrightarrow>
        generateICalFile host parseISO ver toString st
          = (st\<lparr>error := ''Please upload a file and set start and end dates.''\<rparr>, None))"
  by (auto simp: generateICalFile_def split: option.splits sum.splits)

theorem missing_date_range_guard_witness:
  "generateICalFile utc_host parseISO_ymd V2 (Inr :: event list \<Rightarrow> exn + event list)
       (monday_state\<lparr>endDate := []\<rparr>)
     = (monday_state\<lparr>endDate := [],
                      error := ''Please upload a file and set start and end dates.''\<rparr>, None)
   \<and> error (fst (generateICalFile utc_host parseISO_ymd V2 (Inr :: event list \<Rightarrow> exn + event list)
                    monday_state))
     \<noteq> ''Please upload a file and set start and end dates.''"
proof -
  have a: "endDate (monday_state\<lparr>endDate := []\<rparr>) = []" by simp
  have b: "truthy (scheduleData monday_state)" "startDate monday_state \<noteq> []"
    "endDate monday_state \<noteq> []"
    by code_simp+
  from missing_date_range_guard [of utc_host parseISO_ymd V2 Inr "monday_state\<lparr>endDate := []\<rparr>"]
    missing_date_range_guard [of utc_host parseISO_ymd V2 Inr monday_state] a b
  show ?thesis by simp
qed

text \<open>
  C7 as stated fails: the start text \<open>abc\<close> is not a date, yet the guard is passed and the
  \<open>try\<close> block runs. Release 2 of the date library then ends in the generic error, and
  release 3 enumerates no day, so an empty calendar is saved.
\<close>

theorem missing_date_range_guard_counterexample:
  "parseISO_ymd (startDate unparseable_state) = None
   \<and> generateICalFile utc_host parseISO_ymd V2 (Inr :: event list \<Rightarrow> exn + event list) unparseable_state
     = (unparseable_state\<lparr>error :=
          ''Error generating iCal file. Please check your schedule data and try again.''\<rparr>,
        None)
   \<and> generateICalFile utc_host parseISO_ymd V3 (Inr :: event list \<Rightarrow> exn + event list) unparseable_state
     = (unparseable_state\<lparr>error := []\<rparr>, Some ([], ''faculty_schedule.ics''))"
  by code_simp

text \<open>
  C8 (amended). For every materialized item, the start is computed from the day and
  \<open>startTime\<close> alone and the end from the day and \<open>endTime\<close> alone: for a time written as
  digits, a colon and digits, the instant at which the local clock of the host shows the
  day \<open>d\<close> plus that many hours and minutes. Both are handed to the calendar without a
  check and without an error. An interval whose end is not before its start, a zero-length
  one included, is stored as computed. An inverted interval is not: the calendar library
  stores start and end exchanged, so the stored event runs from the item's \<open>endTime\<close> to
  its \<open>startTime\<close>.
\<close>

theorem event_times_stored:
  assumes "materializable item"
    and "process_item host (d * msPerDay) item cal = Inr cal'"
  shows "\<exists>ev s t. cal' = cal @ [ev]
     \<and> event_time host (d * msPerDay) (get item ''startTime'') = Inr (Some s)
     \<and> event_time host (d * msPerDay) (get item ''endTime'') = Inr (Some t)
     \<and> (s \<le> t \<longrightarrow> ev_start ev = Some s \<and> ev_end ev = Some t)
     \<and> (t < s \<longrightarrow> ev_start ev = Some t \<and> ev_end ev = Some s)
     \<and> (\<forall>hs ms. get item ''startTime'' = Some (JStr (hs @ '':'' @ ms))
            \<and> all_digits hs \<and> all_digits ms
            \<and> \<bar>d * 86400000\<bar> \<le> 8640000000000000
            \<and> \<bar>d * 86400000 + decimal hs * 3600000 + decimal ms * 60000\<bar>
                 \<le> 8640000000000000
            \<and> \<bar>utc host (d * 86400000 + decimal hs * 3600000 + decimal ms * 60000)\<bar>
                 \<le> 8640000000000000 \<longrightarrow>
          s = utc host (d * 86400000 + decimal hs * 3600000 + decimal ms * 60000))
     \<and> (\<forall>he me. get item ''endTime'' = Some (JStr (he @ '':'' @ me))
            \<and> all_digits he \<and> all_digits me
            \<and> \<bar>d * 86400000\<bar> \<le> 8640000000000000
            \<and> \<bar>d * 86400000 + decimal he * 3600000 + decimal me * 60000\<bar>
                 \<le> 8640000000000000
            \<and> \<bar>utc host (d * 86400000 + decimal he * 3600000 + decimal me * 60000)\<bar>
                 \<le> 8640000000000000 \<longrightarrow>
          t = utc host (d * 86400000 + decimal he * 3600000 + decimal me * 60000))"
proof -
  from process_item_emits [OF assms] obtain ev s t where
    ev: "event_time host (d * msPerDay) (get item ''startTime'') = Inr (Some s)"
      "event_time host (d * msPerDay) (get item ''endTime'') = Inr (Some t)"
      "cal' = cal @ [ev]"
      "ev_start ev = Some (min s t)" "ev_end ev = Some (max s t)"
    by blast
  from ev(4,5) have o: "s \<le> t \<longrightarrow> ev_start ev = Some s \<and> ev_end ev = Some t"
    by (simp add: min_def max_def)
  from ev(4,5) have i: "t < s \<longrightarrow> ev_start ev = Some t \<and> ev_end ev = Some s"
    by (simp add: min_def max_def)
  have a: "s = utc host (d * 86400000 + decimal hs * 3600000 + decimal ms * 60000)"
    if "get item ''startTime'' = Some (JStr (hs @ '':'' @ ms))"
      "all_digits hs" "all_digits ms" "\<bar>d * 86400000\<bar> \<le> 8640000000000000"
      "\<bar>d * 86400000 + decimal hs * 3600000 + decimal ms * 60000\<bar> \<le> 8640000000000000"
      "\<bar>utc host (d * 86400000 + decimal hs * 3600000 + decimal ms * 60000)\<bar>
         \<le> 8640000000000000"
    for hs ms
    using ev(1) that event_time_digits [OF that(2,3,4,5,6)] by simp
  have b: "t = utc host (d * 86400000 + decimal he * 3600000 + decimal me * 60000)"
    if "get item ''endTime'' = Some (JStr (he @ '':'' @ me))"
      "all_digits he" "all_digits me" "\<bar>d * 86400000\<bar> \<le> 8640000000000000"
      "\<bar>d * 86400000 + decimal he * 3600000 + decimal me * 60000\<bar> \<le> 8640000000000000"
      "\<bar>utc host (d * 86400000 + decimal he * 3600000 + decimal me * 60000)\<bar>
         \<le> 8640000000000000"
    for he me
    using ev(2) that event_time_digits [OF that(2,3,4,5,6)] by simp
  from ev(1,2,3) o i a b show ?thesis by blast
qed

theorem event_times_stored_witness:
  "materializable inverted_item
   \<and> process_item utc_host (19723 * msPerDay) inverted_item [] = Inr [inverted_event]
   \<and> event_time utc_host (19723 * msPerDay) (get inverted_item ''startTime'')
       = Inr (Some 1704105000000)
   \<and> event_time utc_host (19723 * msPerDay) (get inverted_item ''endTime'')
       = Inr (Some 1704099600000)
   \<and> (\<exists>ev. [inverted_event] = [ev] \<and> ev_start ev = Some 1704099600000
         \<and> ev_end ev = Some 1704105000000)"
proof -
  have m: "materializable inverted_item" by code_simp
  have p: "process_item utc_host (19723 * msPerDay) inverted_item [] = Inr [inverted_event]"
    by code_simp
  have s: "event_time utc_host (19723 * msPerDay) (get inverted_item ''startTime'')
      = Inr (Some 1704105000000)"
    by code_simp
  have e: "event_time utc_host (19723 * msPerDay) (get inverted_item ''endTime'')
      = Inr (Some 1704099600000)"
    by code_simp
  from event_times_stored [OF m p] obtain ev s' t' where
    ev: "[inverted_event] = [] @ [ev]"
      "event_time utc_host (19723 * msPerDay) (get inverted_item ''startTime'') = Inr (Some s')"
      "event_time utc_host (19723 * msPerDay) (get inverted_item ''endTime'') = Inr (Some t')"
      "t' < s' \<longrightarrow> ev_start ev = Some t' \<and> ev_end ev = Some s'"
    by blast
  from ev(2) s have "s' = 1704105000000" by simp
  moreover from ev(3) e have "t' = 1704099600000" by simp
  ultimately have "ev_start ev = Some 1704099600000 \<and> ev_end ev = Some 1704105000000"
    using ev(4) by simp
  with ev(1) m p s e show ?thesis by auto
qed

text \<open>
  C8 as stated fails. An item from 10:30 to 09:00 on Monday 1 January 2024 has the start
  10:30 computed for it, but the calendar, and with it what is saved, holds the event from
  09:00 to 10:30. And where the clock skips from 02:00 to 03:00, an item that starts at
  02:30 gets the instant at which the clock shows 03:30.
\<close>

theorem event_times_stored_counterexample:
  "event_time utc_host monday_2024_01_01 (get inverted_item ''startTime'')
     = Inr (Some 1704105000000)
   \<and> process_item utc_host monday_2024_01_01 inverted_item [] = Inr [inverted_event]
   \<and> ev_start inverted_event = Some 1704099600000
   \<and> generateICalFile utc_host parseISO_ymd V3
        (Inr :: event list \<Rightarrow> exn + event list) inverted_state
     = (inverted_state\<lparr>error := []\<rparr>, Some ([inverted_event], ''faculty_schedule.ics''))
   \<and> process_item spring_forward_host sunday_2024_03_10 gap_item [] = Inr [gap_event]
   \<and> ev_start gap_event
       = Some (utc spring_forward_host (sunday_2024_03_10 + 3 * msPerHour + 30 * msPerMinute))"
  by code_simp

text \<open>
  C9. A parsed document whose \<open>schedule\<close> property is absent, \<open>null\<close>, \<open>false\<close>, \<open>0\<close> or the
  empty string is rejected with the error for missing schedule data, and the handler leaves
  the same state in each of these cases: the parse error message and no schedule.
\<close>

theorem falsy_schedule_rejected:
  assumes "doc \<noteq> JNull"
    and "get doc ''schedule''
           \<in> {None, Some JNull, Some (JBool False), Some (JNum 0), Some (JStr [])}"
  shows "load_try (Inr doc) = Inl (Error ''Invalid file format: missing schedule data'')
     \<and> reader_onload (Inr doc) st
         = st\<lparr>error := ''Error parsing the file. Please make sure it's a valid .cccsched file.'',
              scheduleData := None\<rparr>"
proof -
  from assms(2) have f: "\<not> truthy (get doc ''schedule'')" by auto
  from assms(1) have "member (Some doc) ''schedule'' = Inr (get doc ''schedule'')"
    by (cases doc) (simp_all add: member_def)
  with f have "load_try (Inr doc) = Inl (Error ''Invalid file format: missing schedule data'')"
    by (simp add: load_try_def)
  then show ?thesis by (simp add: reader_onload_def)
qed

theorem falsy_schedule_rejected_witness:
  "reader_onload (Inr (JObj [(''schedule'', JNum 0)])) empty_state
     = reader_onload (Inr (JObj [(''title'', JStr ''week'')])) empty_state
   \<and> load_try (Inr (JObj [(''schedule'', JStr [])]))
     = Inl (Error ''Invalid file format: missing schedule data'')
   \<and> load_try (Inr (JObj [(''schedule'', JNull)])) = load_try (Inr (JObj []))"
proof -
  have n: "JObj [(''schedule'', JNum 0)] \<noteq> JNull" "JObj [(''title'', JStr ''week'')] \<noteq> JNull"
    "JObj [(''schedule'', JStr [])] \<noteq> JNull" "JObj [(''schedule'', JNull)] \<noteq> JNull"
    "JObj [] \<noteq> JNull"
    by simp_all
  have g: "get (JObj [(''schedule'', JNum 0)]) ''schedule''
             \<in> {None, Some JNull, Some (JBool False), Some (JNum 0), Some (JStr [])}"
    "get (JObj [(''title'', JStr ''week'')]) ''schedule''
             \<in> {None, Some JNull, Some (JBool False), Some (JNum 0), Some (JStr [])}"
    "get (JObj [(''schedule'', JStr [])]) ''schedule''
             \<in> {None, Some JNull, Some (JBool False), Some (JNum 0), Some (JStr [])}"
    "get (JObj [(''schedule'', JNull)]) ''schedule''
             \<in> {None, Some JNull, Some (JBool False), Some (JNum 0), Some (JStr [])}"
    "get (JObj []) ''schedule''
             \<in> {None, Some JNull, Some (JBool False), Some (JNum 0), Some (JStr [])}"
    by simp_all
  from falsy_schedule_rejected [OF n(1) g(1), of empty_state]
    falsy_schedule_rejected [OF n(2) g(2), of empty_state]
    falsy_schedule_rejected [OF n(3) g(3), of empty_state]
    falsy_schedule_rejected [OF n(4) g(4), of empty_state]
    falsy_schedule_rejected [OF n(5) g(5), of empty_state]
  show ?thesis by simp
qed

text \<open>
  C10 (amended). For every materializable item whose times are written as digits, a colon
  and digits, of any size (hours beyond 23, minutes beyond 59), and whose \<open>classLocation\<close>
  is missing, falsy or a string (or whose type is \<open>campus\<close>), the item is processed without
  error and one event is emitted, provided both instants stay within the range of time
  values of a date. Its two times are the instants at which the local clock of the host
  shows the day plus that many hours and minutes, rolling over into later hours and days;
  they are stored in time order.
\<close>

theorem out_of_range_times_roll_over:
  assumes "materializable item"
    and "get item ''startTime'' = Some (JStr (hs @ '':'' @ ms))"
    and "get item ''endTime'' = Some (JStr (he @ '':'' @ me))"
    and "all_digits hs" and "all_digits ms" and "all_digits he" and "all_digits me"
    and "get item ''type'' = Some (JStr ''campus'')
       \<or> \<not> truthy (get item ''classLocation'') \<or> is_str (get item ''classLocation'')"
    and "\<bar>d * 86400000\<bar> \<le> 8640000000000000"
    and "\<bar>d * 86400000 + decimal hs * 3600000 + decimal ms * 60000\<bar> \<le> 8640000000000000"
    and "\<bar>utc host (d * 86400000 + decimal hs * 3600000 + decimal ms * 60000)\<bar>
           \<le> 8640000000000000"
    and "\<bar>d * 86400000 + decimal he * 3600000 + decimal me * 60000\<bar> \<le> 8640000000000000"
    and "\<bar>utc host (d * 86400000 + decimal he * 3600000 + decimal me * 60000)\<bar>
           \<le> 8640000000000000"
  shows "\<exists>ev. process_item host (d * msPerDay) item cal = Inr (cal @ [ev])
     \<and> ev_start ev
         = Some (min (utc host (d * 86400000 + decimal hs * 3600000 + decimal ms * 60000))
                     (utc host (d * 86400000 + decimal he * 3600000 + decimal me * 60000)))
     \<and> ev_end ev
         = Some (max (utc host (d * 86400000 + decimal hs * 3600000 + decimal ms * 60000))
                     (utc host (d * 86400000 + decimal he * 3600000 + decimal me * 60000)))"
proof -
  from assms(2,4,5,9,10,11) have s: "event_time host (d * msPerDay) (get item ''startTime'')
      = Inr (Some (utc host (d * 86400000 + decimal hs * 3600000 + decimal ms * 60000)))"
    by (simp add: event_time_digits)
  from assms(3,6,7,9,12,13) have e: "event_time host (d * msPerDay) (get item ''endTime'')
      = Inr (Some (utc host (d * 86400000 + decimal he * 3600000 + decimal me * 60000)))"
    by (simp add: event_time_digits)
  from process_item_success [OF assms(1) s e assms(8)] show ?thesis .
qed

theorem out_of_range_times_roll_over_witness:
  "materializable rollover_item
   \<and> get rollover_item ''startTime'' = Some (JStr (''25'' @ '':'' @ ''70''))
   \<and> get rollover_item ''endTime'' = Some (JStr (''27'' @ '':'' @ ''00''))
   \<and> \<not> truthy (get rollover_item ''classLocation'')
   \<and> (\<exists>ev. process_item utc_host (19723 * msPerDay) rollover_item [] = Inr [ev]
         \<and> ev_start ev = Some 1704161400000 \<and> ev_end ev = Some 1704164400000)"
proof -
  have m: "materializable rollover_item" by code_simp
  have s: "get rollover_item ''startTime'' = Some (JStr (''25'' @ '':'' @ ''70''))" by code_simp
  have e: "get rollover_item ''endTime'' = Some (JStr (''27'' @ '':'' @ ''00''))" by code_simp
  have d: "all_digits ''25''" "all_digits ''70''" "all_digits ''27''" "all_digits ''00''"
    by code_simp+
  have l: "\<not> truthy (get rollover_item ''classLocation'')" by code_simp
  then have l': "get rollover_item ''type'' = Some (JStr ''campus'')
       \<or> \<not> truthy (get rollover_item ''classLocation'')
       \<or> is_str (get rollover_item ''classLocation'')"
    by simp
  have v: "decimal ''25'' = 25" "decimal ''70'' = 70" "decimal ''27'' = 27" "decimal ''00'' = 0"
    by code_simp+
  have h: "utc utc_host = (\<lambda>t. t)" by (simp add: utc_host_def)
  have r: "\<bar>19723 * 86400000\<bar> \<le> (8640000000000000 :: int)"
    "\<bar>19723 * 86400000 + decimal ''25'' * 3600000 + decimal ''70'' * 60000\<bar>
      \<le> (8640000000000000 :: int)"
    "\<bar>utc utc_host (19723 * 86400000 + decimal ''25'' * 3600000 + decimal ''70'' * 60000)\<bar>
      \<le> 8640000000000000"
    "\<bar>19723 * 86400000 + decimal ''27'' * 3600000 + decimal ''00'' * 60000\<bar>
      \<le> (8640000000000000 :: int)"
    "\<bar>utc utc_host (19723 * 86400000 + decimal ''27'' * 3600000 + decimal ''00'' * 60000)\<bar>
      \<le> 8640000000000000"
    by (simp_all add: v h)
  from out_of_range_times_roll_over [OF m s e d l' r, of "[]"] m s e l
  show ?thesis by (simp add: v h)
qed

text \<open>
  C10 as stated fails. Three thousand million hours lead past the last time value: the
  start is an Invalid Date and the calendar refuses the event. And the item from 25:70 to
  27:00 with the number 5 as its \<open>classLocation\<close> is refused for its location.
\<close>

theorem out_of_range_times_roll_over_counterexample:
  "materializable huge_hour_item
   \<and> event_time utc_host monday_2024_01_01 (get huge_hour_item ''startTime'')
       = Inr None
   \<and> process_item utc_host monday_2024_01_01 huge_hour_item []
       = Inl (Error ''`start` has to be a valid date!'')
   \<and> materializable numeric_location_item
   \<and> isl (process_item utc_host monday_2024_01_01 numeric_location_item [])"
  by code_simp

end
